theory Spec2Isabelle
  imports Complex_Main "HOL-Library.Word" "HOL-Library.Sublist"
begin

section \<open>JavaScript values used by the client\<close>

text \<open>
  A JavaScript string is a sequence of UTF-16 code units.  The suit symbols
  U+2660 .. U+2666 are one code unit each, so \<open>card.slice(-1)\<close> is the last
  code unit of the string (or the empty string).  ASCII literals of the source are
  written with \<open>js\<close>.
\<close>

type_synonym jsstring = "16 word list"

definition js :: "string \<Rightarrow> jsstring" where
  "js s = map (\<lambda>c. of_nat (of_char c)) s"

text \<open>
  A property of a JSON record that may be missing (\<open>undefined\<close>), \<open>null\<close>
  or present.
\<close>

datatype 'a field = Undefined | Null | Val 'a

text \<open>A JSON number is a finite double, hence a rational; a scalar is a number or a string.\<close>

datatype scalar = Num rat | Str jsstring

datatype error = TypeError

text \<open>Truthiness (\<open>ToBoolean\<close>) of a value that is a string when present.\<close>

fun truthy_string :: "jsstring field \<Rightarrow> bool" where
  "truthy_string (Val s) = (s \<noteq> [])"
| "truthy_string _ = False"

text \<open>Truthiness of a value that is an array when present: every array is truthy.\<close>

fun truthy_array :: "'a list field \<Rightarrow> bool" where
  "truthy_array (Val xs) = True"
| "truthy_array _ = False"

text \<open>
  \<open>ToString\<close> as a template literal applies it: \<open>`${v}`\<close>.  The printing of a
  number (\<open>Number::toString\<close>) is a builtin of the language and is a parameter.
\<close>

fun ToString :: "(rat \<Rightarrow> jsstring) \<Rightarrow> scalar field \<Rightarrow> jsstring" where
  "ToString numStr Undefined = js ''undefined''"
| "ToString numStr Null = js ''null''"
| "ToString numStr (Val (Num n)) = numStr n"
| "ToString numStr (Val (Str s)) = s"

fun ToString_string :: "jsstring field \<Rightarrow> jsstring" where
  "ToString_string Undefined = js ''undefined''"
| "ToString_string Null = js ''null''"
| "ToString_string (Val s) = s"

section \<open>copyToClipboard\<close>

text \<open>
  The class \<open>\s\<close> of a JavaScript regular expression: the white space and line
  terminator code points, all of them in the basic plane.
\<close>

definition is_whitespace :: "16 word \<Rightarrow> bool" where
  "is_whitespace c \<longleftrightarrow>
     (0x0009 \<le> c \<and> c \<le> 0x000D) \<or> c = 0x0020 \<or> c = 0x00A0 \<or> c = 0x1680 \<or>
     (0x2000 \<le> c \<and> c \<le> 0x200A) \<or> c = 0x2028 \<or> c = 0x2029 \<or> c = 0x202F \<or>
     c = 0x205F \<or> c = 0x3000 \<or> c = 0xFEFF"

text \<open>
  \<open>s.replace(/\s+/g, '')\<close>: scanning from the left, every maximal run of white
  space is matched by \<open>\s+\<close> and replaced by the empty string.
\<close>

function replace_whitespace_runs :: "jsstring \<Rightarrow> jsstring" where
  "replace_whitespace_runs [] = []"
| "replace_whitespace_runs (c # cs) =
     (if is_whitespace c then replace_whitespace_runs (dropWhile is_whitespace cs)
      else c # replace_whitespace_runs cs)"
  by pat_completeness auto
termination
  by (relation "measure length") (auto simp: length_dropWhile_le le_imp_less_Suc)

text \<open>
  \<open>text.replace(...)\<close> on a receiver that is \<open>undefined\<close> or \<open>null\<close> throws a
  TypeError.
\<close>

fun String_replace :: "jsstring field \<Rightarrow> error + jsstring" where
  "String_replace (Val s) = Inr (replace_whitespace_runs s)"
| "String_replace _ = Inl TypeError"

text \<open>\<open>const normalized = text ? text.replace(/\s+/g, '') : '';\<close>\<close>

definition normalized :: "jsstring field \<Rightarrow> error + jsstring" where
  "normalized text = (if truthy_string text then String_replace text else Inr [])"

text \<open>
  The part of the page \<open>copyToClipboard\<close> and \<open>showToast\<close> act on: the system
  clipboard and the toast element.  The timer that hides the toast again after two
  seconds is not part of the model.
\<close>

record page =
  clipboard :: jsstring
  toast_textContent :: jsstring
  toast_show :: bool

definition showToast :: "jsstring \<Rightarrow> page \<Rightarrow> page" where
  "showToast message p = p\<lparr>toast_textContent := message, toast_show := True\<rparr>"

text \<open>
  \<open>navigator.clipboard.writeText\<close> returns a promise; \<open>granted\<close> says whether the
  browser fulfils it (the text is then on the clipboard) or rejects it.
\<close>

definition copyToClipboard :: "bool \<Rightarrow> jsstring field \<Rightarrow> page \<Rightarrow> error + page" where
  "copyToClipboard granted text p =
     (case normalized text of
        Inl e \<Rightarrow> Inl e
      | Inr n \<Rightarrow>
          Inr (if granted then showToast (js ''Copied to clipboard!'') (p\<lparr>clipboard := n\<rparr>)
               else showToast (js ''Failed to copy!'') p))"

section \<open>getSuitColor\<close>

text \<open>\<open>card.slice(-1)\<close>: the string of the last code unit, empty for the empty string.\<close>

definition slice_last :: "jsstring \<Rightarrow> jsstring" where
  "slice_last s = (if s = [] then [] else [last s])"

definition getSuitColor :: "jsstring \<Rightarrow> jsstring" where
  "getSuitColor c =
     (let suit = slice_last c in
      if suit = [0x2665] then js ''red''
      else if suit = [0x2666] then js ''blue''
      else if suit = [0x2663] then js ''green''
      else js ''black'')"

section \<open>The detection record and the configuration\<close>

text \<open>
  The record the client receives for one table, as JSON.  Fields the code only
  interpolates into a template are scalars that may be missing; fields it tests for
  truthiness before use may be missing or \<open>null\<close>; \<open>display\<close>, on which
  \<open>slice\<close> is called, is a string; \<open>amount\<close> is a number, \<open>null\<close> or missing.
\<close>

record playing_card =
  display :: jsstring

record position =
  player :: "scalar field"
  name :: "scalar field"

record move =
  player_label :: "scalar field"
  action :: "scalar field"
  amount :: "rat field"

text \<open>One entry of \<open>detection.moves\<close>: \<open>streetData.street\<close> and \<open>streetData.moves\<close>.\<close>

record streetData =
  streetData_street :: "scalar field"
  streetData_moves :: "move list"

record detection =
  window_name :: "scalar field"
  last_update :: "scalar field"
  player_cards :: "playing_card list field"
  player_cards_string :: "scalar field"
  table_cards :: "playing_card list field"
  table_cards_string :: "scalar field"
  street :: "jsstring field"
  positions :: "position list field"
  moves :: "streetData list field"
  solver_link :: "jsstring field"

record config =
  backend_capture_interval :: rat
  show_table_cards :: bool
  show_positions :: bool
  show_moves :: bool
  show_solver_link :: bool

section \<open>Section builders\<close>

text \<open>The single quote of \<open>copyToClipboard('...')\<close> inside a template.\<close>

definition quote :: jsstring where
  "quote = [0x27]"

text \<open>\<open>cards.map(card => `<div class="card ${getSuitColor(card.display)}">${card.display}</div>`).join('')\<close>\<close>

definition cardHtml :: "playing_card \<Rightarrow> jsstring" where
  \<open>cardHtml c = js ''<div class="card '' @ getSuitColor (display c) @ js ''">'' @ display c @ js ''</div>''\<close>

definition createPlayerCardsSection :: "(rat \<Rightarrow> jsstring) \<Rightarrow> detection \<Rightarrow> bool \<Rightarrow> jsstring" where
  \<open>createPlayerCardsSection numStr detection isUpdate =
     (let cardsClass = (if isUpdate then js ''cards-block new-cards'' else js ''cards-block'') in
      case player_cards detection of
        Val cs \<Rightarrow>
          if length cs > 0 then
            (let cardsHtml = concat (map cardHtml cs) in
             js ''<div class="'' @ cardsClass @ js ''" onclick="copyToClipboard('' @ quote @
               ToString numStr (player_cards_string detection) @ quote @ js '')">'' @
               cardsHtml @ js ''</div>'')
          else js ''<div class="no-cards">No cards detected</div>''
      | _ \<Rightarrow> js ''<div class="no-cards">No cards detected</div>'')\<close>

text \<open>\<open>detection.street && detection.street.startsWith('ERROR')\<close>\<close>

definition street_is_error :: "jsstring field \<Rightarrow> bool" where
  "street_is_error st = (case st of Val s \<Rightarrow> s \<noteq> [] \<and> prefix (js ''ERROR'') s | _ \<Rightarrow> False)"

definition createTableCardsSection ::
  "(rat \<Rightarrow> jsstring) \<Rightarrow> config \<Rightarrow> detection \<Rightarrow> bool \<Rightarrow> jsstring" where
  \<open>createTableCardsSection numStr cfg detection isUpdate =
     (if \<not> show_table_cards cfg then []
      else
        let cardsClass = (if isUpdate then js ''cards-block new-cards'' else js ''cards-block'');
            streetClass = (if street_is_error (street detection)
                           then js ''street-indicator error'' else js ''street-indicator'');
            streetDisplay = (if truthy_string (street detection)
                             then js ''<span class="'' @ streetClass @ js ''">'' @
                                  ToString_string (street detection) @ js ''</span>''
                             else []);
            cardsHtml =
              (case table_cards detection of
                 Val cs \<Rightarrow>
                   if length cs > 0 then
                     (let cards = concat (map cardHtml cs) in
                      js ''<div class="'' @ cardsClass @ js ''" onclick="copyToClipboard('' @ quote @
                        ToString numStr (table_cards_string detection) @ quote @ js '')">'' @
                        cards @ js ''</div>'')
                   else js ''<div class="no-cards">No cards detected</div>''
               | _ \<Rightarrow> js ''<div class="no-cards">No cards detected</div>'')
        in js ''\<newline>        <div class="table-cards-column">'' @
           js ''\<newline>            <div class="cards-label">Table Cards: '' @ streetDisplay @ js ''</div>'' @
           js ''\<newline>            <div class="cards-container">'' @ cardsHtml @ js ''</div>'' @
           js ''\<newline>        </div>'' @
           js ''\<newline>    '')\<close>

text \<open>\<open>`<div class="position">${position.player} ${position.name}</div>`\<close>\<close>

definition positionHtml :: "(rat \<Rightarrow> jsstring) \<Rightarrow> position \<Rightarrow> jsstring" where
  \<open>positionHtml numStr p =
     js ''<div class="position">'' @ ToString numStr (player p) @ js '' '' @
     ToString numStr (name p) @ js ''</div>''\<close>

definition createPositionsSection ::
  "(rat \<Rightarrow> jsstring) \<Rightarrow> config \<Rightarrow> detection \<Rightarrow> bool \<Rightarrow> jsstring" where
  \<open>createPositionsSection numStr cfg detection isUpdate =
     (if \<not> show_positions cfg then []
      else
        let positionsClass = (if isUpdate then js ''positions-block new-positions''
                              else js ''positions-block'');
            positionsHtml =
              (case positions detection of
                 Val ps \<Rightarrow>
                   if length ps > 0 then
                     (let positions = concat (map (positionHtml numStr) ps) in
                      js ''<div class="'' @ positionsClass @ js ''">'' @ positions @ js ''</div>'')
                   else js ''<div class="no-positions">No position detected</div>''
               | _ \<Rightarrow> js ''<div class="no-positions">No position detected</div>'')
        in js ''\<newline>        <div class="positions-column">'' @
           js ''\<newline>            <div class="cards-label">Positions:</div>'' @
           js ''\<newline>            <div class="positions-container">'' @
           js ''\<newline>                '' @ positionsHtml @
           js ''\<newline>            </div>'' @
           js ''\<newline>        </div>'' @
           js ''\<newline>    '')\<close>

text \<open>
  \<open>move.amount > 0\<close>: the operand is converted with \<open>ToNumber\<close>; \<open>null\<close> becomes
  0 and \<open>undefined\<close> becomes NaN, and neither is greater than 0.
\<close>

fun greater_than_zero :: "rat field \<Rightarrow> bool" where
  "greater_than_zero (Val a) = (a > 0)"
| "greater_than_zero Null = False"
| "greater_than_zero Undefined = False"

fun ToString_number :: "(rat \<Rightarrow> jsstring) \<Rightarrow> rat field \<Rightarrow> jsstring" where
  "ToString_number numStr Undefined = js ''undefined''"
| "ToString_number numStr Null = js ''null''"
| "ToString_number numStr (Val n) = numStr n"

text \<open>The text of one move, the variable \<open>moveText\<close> of the inner callback.\<close>

definition moveText :: "(rat \<Rightarrow> jsstring) \<Rightarrow> move \<Rightarrow> jsstring" where
  \<open>moveText numStr m =
     (let moveText = ToString numStr (player_label m) @ js '': '' @ ToString numStr (action m) in
      if greater_than_zero (amount m)
      then moveText @ js '' $'' @ ToString_number numStr (amount m)
      else moveText)\<close>

definition moveHtml :: "(rat \<Rightarrow> jsstring) \<Rightarrow> move \<Rightarrow> jsstring" where
  \<open>moveHtml numStr m = js ''<div class="move">'' @ moveText numStr m @ js ''</div>''\<close>

text \<open>The outer callback: the block of one street.\<close>

definition streetMovesHtml :: "(rat \<Rightarrow> jsstring) \<Rightarrow> jsstring \<Rightarrow> streetData \<Rightarrow> jsstring" where
  \<open>streetMovesHtml numStr movesClass sd =
     (let moves = concat (map (moveHtml numStr) (streetData_moves sd)) in
      js ''\<newline>            <div class="'' @ movesClass @ js ''">'' @
      js ''\<newline>                <div class="street-moves-header">'' @
        ToString numStr (streetData_street sd) @ js ''</div>'' @
      js ''\<newline>                <div class="street-moves-list">'' @ moves @ js ''</div>'' @
      js ''\<newline>            </div>'' @
      js ''\<newline>        '')\<close>

definition noMovesHtml :: jsstring where
  \<open>noMovesHtml =
     js ''\<newline>            <div class="cards-section">'' @
     js ''\<newline>                <div class="cards-label">Moves History:</div>'' @
     js ''\<newline>                <div class="moves-by-street">'' @
     js ''\<newline>                    <div class="no-moves">No moves detected</div>'' @
     js ''\<newline>                </div>'' @
     js ''\<newline>            </div>'' @
     js ''\<newline>        ''\<close>

definition createMovesSection ::
  "(rat \<Rightarrow> jsstring) \<Rightarrow> config \<Rightarrow> detection \<Rightarrow> bool \<Rightarrow> jsstring" where
  \<open>createMovesSection numStr cfg detection isUpdate =
     (if \<not> show_moves cfg then []
      else
        case moves detection of
          Val sds \<Rightarrow>
            if length sds = 0 then noMovesHtml
            else
              let movesClass = (if isUpdate then js ''street-moves-block new-moves''
                                else js ''street-moves-block'');
                  movesHtml = concat (map (streetMovesHtml numStr movesClass) sds)
              in js ''\<newline>        <div class="cards-section">'' @
                 js ''\<newline>            <div class="cards-label">Moves History:</div>'' @
                 js ''\<newline>            <div class="moves-by-street">'' @
                 js ''\<newline>                '' @ movesHtml @
                 js ''\<newline>            </div>'' @
                 js ''\<newline>        </div>'' @
                 js ''\<newline>    ''
        | _ \<Rightarrow> noMovesHtml)\<close>

text \<open>The link symbol U+1F517 of the template is a surrogate pair.\<close>

definition createSolverLinkSection :: "config \<Rightarrow> detection \<Rightarrow> bool \<Rightarrow> jsstring" where
  \<open>createSolverLinkSection cfg detection isUpdate =
     (if \<not> show_solver_link cfg \<or> \<not> truthy_string (solver_link detection) then []
      else
        let linkClass = (if isUpdate then js ''solver-link-block new-solver-link''
                         else js ''solver-link-block'')
        in js ''\<newline>        <div class="cards-section">'' @
           js ''\<newline>            <div class="cards-label">Solver Analysis !!!BETA!!!:</div>'' @
           js ''\<newline>            <div class="'' @ linkClass @ js ''">'' @
           js ''\<newline>                <a href="'' @ ToString_string (solver_link detection) @
             js ''" target="_blank" class="solver-link">'' @
           js ''\<newline>                    Open in FlopHero '' @ [0xD83D, 0xDD17] @
           js ''\<newline>                </a>'' @
           js ''\<newline>            </div>'' @
           js ''\<newline>        </div>'' @
           js ''\<newline>    '')\<close>

text \<open>
  The template \<open>createTableContainer\<close> returns, with its six holes: the class, the
  window name, the time of the last update, the main cards content, the moves section
  and the solver link section.
\<close>

definition tableContainerHtml ::
  "jsstring \<Rightarrow> jsstring \<Rightarrow> jsstring \<Rightarrow> jsstring \<Rightarrow> jsstring \<Rightarrow> jsstring \<Rightarrow> jsstring" where
  \<open>tableContainerHtml tableClass windowName updated mainCardsContent movesSection solverLinkSection =
     js ''\<newline>        <div class="'' @ tableClass @ js ''">'' @
     js ''\<newline>            <div class="table-header">'' @
     js ''\<newline>                <div class="table-name">'' @ windowName @ js ''</div>'' @
     js ''\<newline>                <div class="last-update">Updated: '' @ updated @ js ''</div>'' @
     js ''\<newline>            </div>'' @
     js ''\<newline>            <div class="main-cards-section">'' @
     js ''\<newline>                '' @ mainCardsContent @
     js ''\<newline>            </div>'' @
     js ''\<newline>            '' @ movesSection @
     js ''\<newline>            '' @ solverLinkSection @
     js ''\<newline>        </div>'' @
     js ''\<newline>    ''\<close>

definition playerCardsColumn :: "jsstring \<Rightarrow> jsstring" where
  \<open>playerCardsColumn playerCardsSection =
     js ''\<newline>        <div class="player-cards-column">'' @
     js ''\<newline>            <div class="cards-label">Player Cards:</div>'' @
     js ''\<newline>            <div class="player-section">'' @
     js ''\<newline>                '' @ playerCardsSection @
     js ''\<newline>            </div>'' @
     js ''\<newline>        </div>'' @
     js ''\<newline>    ''\<close>

text \<open>
  \<open>createTableContainer\<close> of the client page.  \<open>timeStr\<close> stands for
  \<open>new Date(detection.last_update).toLocaleTimeString()\<close>, which depends on the
  locale of the browser.  \<open>if (s) content += s\<close> appends a non-empty section.
\<close>

definition createTableContainer ::
  "(rat \<Rightarrow> jsstring) \<Rightarrow> (scalar field \<Rightarrow> jsstring) \<Rightarrow> config \<Rightarrow> detection \<Rightarrow> bool \<Rightarrow> jsstring" where
  \<open>createTableContainer numStr timeStr cfg detection isUpdate =
     (let tableClass = (if isUpdate then js ''table-container updated client-table''
                        else js ''table-container client-table'');
          tableCardsSection = createTableCardsSection numStr cfg detection isUpdate;
          positionsSection = createPositionsSection numStr cfg detection isUpdate;
          movesSection = createMovesSection numStr cfg detection isUpdate;
          solverLinkSection = createSolverLinkSection cfg detection isUpdate;
          mainCardsContent = playerCardsColumn (createPlayerCardsSection numStr detection isUpdate);
          mainCardsContent = (if tableCardsSection \<noteq> [] then mainCardsContent @ tableCardsSection
                              else mainCardsContent);
          mainCardsContent = (if positionsSection \<noteq> [] then mainCardsContent @ positionsSection
                              else mainCardsContent)
      in tableContainerHtml tableClass (ToString numStr (window_name detection))
           (timeStr (last_update detection)) mainCardsContent movesSection solverLinkSection)\<close>

section \<open>Change detection\<close>

text \<open>
  The variables of the client next to the page: the configuration, the detections of
  the last read, the entity tag of the last response and the polling flag.
\<close>

record 'd client =
  client_config :: config
  previousDetections :: 'd
  lastETag :: "jsstring field"
  pollingActive :: bool

text \<open>
  \<open>JSON.stringify\<close> is a builtin of the language and a parameter here; its result is
  a string, or \<open>undefined\<close> for a value that has no JSON text.  \<open>!==\<close> compares the
  two results.
\<close>

definition detectChanges :: "('d \<Rightarrow> jsstring field) \<Rightarrow> 'd client \<Rightarrow> 'd \<Rightarrow> bool" where
  "detectChanges stringify cl newDetections =
     (let newStr = stringify newDetections;
          prevStr = stringify (previousDetections cl)
      in newStr \<noteq> prevStr)"

section \<open>The detection engine\<close>

text \<open>
  The engine that produces the detection records (capture, template matching, bid
  reader, game state tracker) is not among the source files; the client above is its
  only consumer there.  The parts the properties below are about are modelled from the
  specification, sections 3, 4.3, 4.4 and 8.
\<close>

text \<open>
  Modelled from the spec: the Street enumeration of the missing engine, "enumeration
  {Preflop, Flop, Turn, River}".
\<close>

datatype street = Preflop | Flop | Turn | River

text \<open>
  Modelled from the spec: the rejection of a card count that has no street by the
  missing street function ("invalid input").
\<close>

datatype engine_error = InvalidCardCount nat

text \<open>
  Modelled from the spec: the street function of the engine, which is missing.  It is
  "a pure function of community-card count (0 to Preflop, 3 to Flop, 4 to Turn, 5 to
  River)"; "any other c is invalid input and must not be silently coerced".  The client
  shows what it receives for such a count: a street text that starts with ERROR.
\<close>

definition Street :: "nat \<Rightarrow> engine_error + street" where
  "Street c =
     (if c = 0 then Inr Preflop
      else if c = 3 then Inr Flop
      else if c = 4 then Inr Turn
      else if c = 5 then Inr River
      else Inl (InvalidCardCount c))"

subsection \<open>Bid reader\<close>

text \<open>Modelled from the spec: the seat index of the missing engine, "seat index 1-6".\<close>

type_synonym seat = nat

text \<open>
  Modelled from the spec: a BidReading of the missing Bid/Amount Reader.  The amount is
  absent "when no marker/text is present", a failed read is "unknown amount", and
  "zero is a valid bid-cleared state", an amount like every other.
\<close>

datatype reading = NoAmount | Unknown | Amount rat

text \<open>
  Modelled from the spec: the parse step of the missing Bid/Amount Reader, on the text
  that character recognition returns for a seat's region.  "The character set
  recognized is restricted to digits and the decimal point; any other recognized token
  is treated as a failed read, not as a value.  Failed reads do not throw".  A text of
  digits and points that is no decimal numeral (two points, no digit) is a failed read
  as well.
\<close>

definition is_digit :: "char \<Rightarrow> bool" where
  "is_digit c \<longleftrightarrow> (48::nat) \<le> of_char c \<and> of_char c \<le> (57::nat)"

text \<open>
  Modelled from the spec: the value of a run of digits, for the parse step of the
  missing Bid/Amount Reader.
\<close>

definition digits_value :: "string \<Rightarrow> nat" where
  "digits_value ds = foldl (\<lambda>n c. 10 * n + (of_char c - 48)) 0 ds"

text \<open>
  Modelled from the spec: the decimal numeral the missing Bid/Amount Reader parses:
  digits, at most one decimal point, at least one digit.
\<close>

definition parse_amount :: "string \<Rightarrow> rat option" where
  "parse_amount txt =
     (let ip = takeWhile is_digit txt; rest = dropWhile is_digit txt in
      case rest of
        [] \<Rightarrow> if ip = [] then None else Some (of_nat (digits_value ip))
      | c # fp \<Rightarrow>
          if c = CHR ''.'' \<and> list_all is_digit fp \<and> (ip \<noteq> [] \<or> fp \<noteq> [])
          then Some (of_nat (digits_value ip) + of_nat (digits_value fp) / 10 ^ length fp)
          else None)"

text \<open>
  Modelled from the spec: the result of the missing Bid/Amount Reader for a seat: "no
  amount" when the region is visually empty, the parsed amount, and "unknown amount"
  for a failed read.
\<close>

definition read_amount :: "string \<Rightarrow> reading" where
  "read_amount txt =
     (if txt = [] then NoAmount
      else case parse_amount txt of None \<Rightarrow> Unknown | Some a \<Rightarrow> Amount a)"

subsection \<open>Game state tracker\<close>

text \<open>
  Modelled from the spec: the data model of section 3, for the missing tracker.  A card
  is its rank and suit; a Move is "seat, action kind (fold/check/call/raise), amount
  (optional), street".
\<close>

type_synonym table_card = string

text \<open>
  Modelled from the spec: the action kind of a Move of the missing tracker,
  "fold/check/call/raise".
\<close>

datatype action_kind = Fold | Check | Call | Raise

text \<open>
  Modelled from the spec: a Move of the missing tracker, "seat, action kind, amount
  (optional), street".
\<close>

record Move =
  move_seat :: seat
  move_kind :: action_kind
  move_amount :: "rat option"
  move_street :: street

text \<open>
  Modelled from the spec: what one detection cycle hands to the missing tracker after
  the join of section 5: the accepted hole cards, community cards and positions (empty
  when none is detected), the bid reading of every seat and the seats whose action
  button region shows a fold marker.
\<close>

record Observation =
  obs_hole :: "table_card list"
  obs_community :: "table_card list"
  obs_positions :: "(seat \<times> string) list"
  obs_bids :: "seat \<Rightarrow> reading"
  obs_fold :: "seat \<Rightarrow> bool"

text \<open>
  Modelled from the spec: the GameState of the missing tracker: "current hole cards,
  current community cards, current positions, ordered list of Streets each holding its
  Moves, ... and a hand epoch counter".  The history is the list of committed moves in
  the order of commitment, each move with its street.  Next to it the tracker holds the
  committed amount of every seat on every street, and what it has seen once and not yet
  confirmed: a reading per seat and the candidate moves.  The solver link and the time
  stamp are left out.
\<close>

record GameState =
  hole_cards :: "table_card list"
  community_cards :: "table_card list"
  seat_positions :: "(seat \<times> string) list"
  hand_epoch :: nat
  history :: "Move list"
  committed_amount :: "street \<Rightarrow> seat \<Rightarrow> reading"
  pending_reading :: "seat \<Rightarrow> reading option"
  pending_moves :: "Move list"

text \<open>
  Modelled from the spec: the state of the missing tracker before the first cycle of a
  table.
\<close>

definition initial_state :: GameState where
  "initial_state =
     \<lparr>hole_cards = [], community_cards = [], seat_positions = [], hand_epoch = 0,
      history = [], committed_amount = (\<lambda>st seat. NoAmount),
      pending_reading = (\<lambda>seat. None), pending_moves = []\<rparr>"

text \<open>
  Modelled from the spec: the street of a state of the missing tracker, "determined
  solely by community-card count".
\<close>

definition current_street :: "GameState \<Rightarrow> engine_error + street" where
  "current_street s = Street (length (community_cards s))"

text \<open>
  Modelled from the spec: a field of the missing tracker after a cycle.  "A missing or
  low-confidence read for any individual signal degrades gracefully to unknown for that
  field only": the hole cards and the positions of the state are those the cycle
  detected, and the last detected ones when the cycle detected none.
\<close>

definition keep_detected :: "'a list \<Rightarrow> 'a list \<Rightarrow> 'a list" where
  "keep_detected known detected = (if detected = [] then known else detected)"

text \<open>
  Modelled from the spec: the three signals of a new hand in the missing tracker
  (section 4.4).  "A regression in count (card count drops) is the trigger for a
  new-hand reset"; "a new-game detection is additionally signaled when hole cards or
  seat positions change outright between cycles, even without a community-card
  regression; both signals are OR'd together to decide whether to reset".  The cards
  and positions a cycle detects are compared with the last detected ones, so a change
  across cycles that detected none is a change; the first detection of a table is the
  transition from AwaitingHoleCards to Preflop and no change.
\<close>

definition count_regressed :: "GameState \<Rightarrow> Observation \<Rightarrow> bool" where
  "count_regressed s ob \<longleftrightarrow> length (obs_community ob) < length (community_cards s)"

text \<open>
  Modelled from the spec: the signal "hole cards ... change outright between cycles" of
  the missing tracker: the cycle detects hole cards that differ from the last detected
  ones.
\<close>

definition hole_changed :: "GameState \<Rightarrow> Observation \<Rightarrow> bool" where
  "hole_changed s ob \<longleftrightarrow> hole_cards s \<noteq> [] \<and> obs_hole ob \<noteq> [] \<and> obs_hole ob \<noteq> hole_cards s"

text \<open>
  Modelled from the spec: the signal "seat positions change outright between cycles" of
  the missing tracker: the cycle detects positions that differ from the last detected
  ones.
\<close>

definition positions_changed :: "GameState \<Rightarrow> Observation \<Rightarrow> bool" where
  "positions_changed s ob \<longleftrightarrow>
     seat_positions s \<noteq> [] \<and> obs_positions ob \<noteq> [] \<and> obs_positions ob \<noteq> seat_positions s"

text \<open>
  Modelled from the spec: the decision of the missing tracker to reset, the signals
  "OR'd together".
\<close>

definition new_hand :: "GameState \<Rightarrow> Observation \<Rightarrow> bool" where
  "new_hand s ob \<longleftrightarrow> count_regressed s ob \<or> hole_changed s ob \<or> positions_changed s ob"

text \<open>
  Modelled from the spec: the new-hand reset of the missing tracker: "a new hand epoch
  begins, all per-hand state (Move history, street) is cleared, and only hole cards /
  positions persist forward as the seed of the next epoch".  The community cards of the
  new state are those of the cycle that starts it.
\<close>

definition reset_hand :: "GameState \<Rightarrow> Observation \<Rightarrow> GameState" where
  "reset_hand s ob =
     \<lparr>hole_cards = keep_detected (hole_cards s) (obs_hole ob),
      community_cards = obs_community ob,
      seat_positions = keep_detected (seat_positions s) (obs_positions ob),
      hand_epoch = Suc (hand_epoch s),
      history = [], committed_amount = (\<lambda>st seat. NoAmount),
      pending_reading = (\<lambda>seat. None), pending_moves = []\<rparr>"

text \<open>
  Modelled from the spec: the candidate moves of one cycle of the missing tracker.  The
  inference of section 4.4 compares the readings of the cycle with the committed
  amounts "for the same seat and street"; it is a parameter \<open>infer\<close>, since the
  specification leaves the end of a street and the active seats open.  A cycle whose
  card count has no street yields no candidate.
\<close>

definition candidates ::
  "(GameState \<Rightarrow> street \<Rightarrow> Observation \<Rightarrow> Move list) \<Rightarrow> GameState \<Rightarrow> Observation \<Rightarrow> Move list" where
  "candidates infer s ob =
     (case Street (length (obs_community ob)) of
        Inl e \<Rightarrow> []
      | Inr st \<Rightarrow> infer s st ob)"


text \<open>
  Modelled from the spec: confirmation of a reading in the missing tracker.  A reading
  equal to the committed amount changes nothing; a reading that differs replaces the
  committed amount once the cycle before read the same ("unknown must not overwrite a
  previously known amount unless corroborated by a subsequent identical reading"), and
  is held as the pending reading until then.
\<close>

definition confirm_amount :: "reading \<Rightarrow> reading option \<Rightarrow> reading \<Rightarrow> reading" where
  "confirm_amount c p r = (if r = c then c else if p = Some r then r else c)"

text \<open>
  Modelled from the spec: the pending reading of a seat after a cycle of the missing
  tracker: the reading of the cycle when it differs from the committed amount and is
  not yet corroborated.
\<close>

definition confirm_pending :: "reading \<Rightarrow> reading option \<Rightarrow> reading \<Rightarrow> reading option" where
  "confirm_pending c p r = (if r = c then None else if p = Some r then None else Some r)"

text \<open>
  Modelled from the spec: a cycle of the missing tracker within a hand.  The community
  cards become those of the cycle, the hole cards and positions those it detected.  "A move is only committed (appended to the
  street's ordered Move list) once confirmed stable across two consecutive detection
  cycles ...; until confirmed it is held as a pending candidate": a candidate of this
  cycle that was pending from the cycle before is appended to the history, the other
  candidates of this cycle are the new pending ones.  The readings are confirmed for
  the street of the cycle; a cycle whose card count has no street commits nothing and
  holds no reading pending.
\<close>

definition continue_hand ::
  "(GameState \<Rightarrow> street \<Rightarrow> Observation \<Rightarrow> Move list) \<Rightarrow> GameState \<Rightarrow> Observation \<Rightarrow> GameState" where
  "continue_hand infer s ob =
     (let cands = candidates infer s ob;
          confirmed = filter (\<lambda>m. m \<in> set (pending_moves s)) cands;
          waiting = filter (\<lambda>m. m \<notin> set (pending_moves s)) cands
      in case Street (length (obs_community ob)) of
           Inl e \<Rightarrow>
             s\<lparr>hole_cards := keep_detected (hole_cards s) (obs_hole ob),
               community_cards := obs_community ob,
               seat_positions := keep_detected (seat_positions s) (obs_positions ob),
               pending_reading := (\<lambda>seat. None), pending_moves := waiting\<rparr>
         | Inr st \<Rightarrow>
             s\<lparr>hole_cards := keep_detected (hole_cards s) (obs_hole ob),
               community_cards := obs_community ob,
               seat_positions := keep_detected (seat_positions s) (obs_positions ob),
               history := history s @ confirmed,
               committed_amount := (\<lambda>st' seat.
                  if st' = st
                  then confirm_amount (committed_amount s st seat) (pending_reading s seat)
                         (obs_bids ob seat)
                  else committed_amount s st' seat),
               pending_reading := (\<lambda>seat.
                  confirm_pending (committed_amount s st seat) (pending_reading s seat)
                    (obs_bids ob seat)),
               pending_moves := waiting\<rparr>)"

text \<open>
  Modelled from the spec: one detection cycle of the missing tracker: the reset when a
  new hand is signalled, the cycle within the hand otherwise.
\<close>

definition track ::
  "(GameState \<Rightarrow> street \<Rightarrow> Observation \<Rightarrow> Move list) \<Rightarrow> GameState \<Rightarrow> Observation \<Rightarrow> GameState" where
  "track infer s ob = (if new_hand s ob then reset_hand s ob else continue_hand infer s ob)"

text \<open>
  Modelled from the spec: the missing tracker run over the observations of consecutive
  detection cycles.
\<close>

definition run ::
  "(GameState \<Rightarrow> street \<Rightarrow> Observation \<Rightarrow> Move list) \<Rightarrow> GameState \<Rightarrow> Observation list \<Rightarrow> GameState" where
  "run infer s obs = foldl (track infer) s obs"

text \<open>
  Modelled from the spec: the record the missing read API returns for a table (section
  6): cards, street, positions, the streets with their committed moves, and the epoch.
  Pending readings and candidates are not part of it.
\<close>

record Snapshot =
  snap_hole :: "table_card list"
  snap_community :: "table_card list"
  snap_street :: "engine_error + street"
  snap_positions :: "(seat \<times> string) list"
  snap_streets :: "(street \<times> Move list) list"
  snap_epoch :: nat

text \<open>
  Modelled from the spec: the read of the missing read API: the committed part of the
  game state, the moves grouped by street.
\<close>

definition snapshot :: "GameState \<Rightarrow> Snapshot" where
  "snapshot s =
     \<lparr>snap_hole = hole_cards s, snap_community = community_cards s,
      snap_street = current_street s, snap_positions = seat_positions s,
      snap_streets = map (\<lambda>st. (st, filter (\<lambda>m. move_street m = st) (history s)))
                       [Preflop, Flop, Turn, River],
      snap_epoch = hand_epoch s\<rparr>"

subsection \<open>Inference of bets and folds\<close>

text \<open>
  Modelled from the spec: two rules of the move reconstruction of the missing tracker
  (section 4.4), as one inference to run the tracker with.  "A seat whose amount
  increases produces a raise/call candidate move (disambiguated by comparing against
  the current street's minimum-to-call, computed as the maximum committed amount among
  active seats this street); a seat whose action-button region shows a fold marker and
  whose bid does not change produces a fold".  A seat is active until a fold of it is
  committed; a seat without a bid has put in nothing.  The rule for a check waits for
  the end of a street, which the specification does not define; it is not part of this
  inference.
\<close>

text \<open>Modelled from the spec: the seats of a table of the missing engine, 1 to 6.\<close>

definition seats :: "seat list" where
  "seats = [1, 2, 3, 4, 5, 6]"

text \<open>
  Modelled from the spec: a seat of the missing tracker is no longer active once a fold
  of it is committed.
\<close>

definition folded :: "GameState \<Rightarrow> seat \<Rightarrow> bool" where
  "folded s seat \<longleftrightarrow> list_ex (\<lambda>m. move_seat m = seat \<and> move_kind m = Fold) (history s)"

text \<open>
  Modelled from the spec: the minimum-to-call of the missing tracker, "the maximum
  committed amount among active seats this street".
\<close>

definition min_to_call :: "GameState \<Rightarrow> street \<Rightarrow> rat" where
  "min_to_call s st =
     foldr max
       (map (\<lambda>seat. case committed_amount s st seat of Amount a \<Rightarrow> a | _ \<Rightarrow> 0)
          (filter (\<lambda>seat. \<not> folded s seat) seats)) 0"

text \<open>
  Modelled from the spec: the raise/call and the fold candidate of one seat in the
  missing tracker.  An amount above the minimum-to-call is a raise, every other increase
  a call.
\<close>

definition infer_seat :: "GameState \<Rightarrow> street \<Rightarrow> Observation \<Rightarrow> seat \<Rightarrow> Move list" where
  "infer_seat s st ob seat =
     (if folded s seat then []
      else
        case (committed_amount s st seat, obs_bids ob seat) of
          (Amount a, Amount b) \<Rightarrow>
            if a < b
            then [\<lparr>move_seat = seat,
                   move_kind = (if min_to_call s st < b then Raise else Call),
                   move_amount = Some b, move_street = st\<rparr>]
            else if a = b \<and> obs_fold ob seat
            then [\<lparr>move_seat = seat, move_kind = Fold, move_amount = None, move_street = st\<rparr>]
            else []
        | (NoAmount, Amount b) \<Rightarrow>
            if 0 < b
            then [\<lparr>move_seat = seat,
                   move_kind = (if min_to_call s st < b then Raise else Call),
                   move_amount = Some b, move_street = st\<rparr>]
            else []
        | (c, r) \<Rightarrow>
            if r = c \<and> obs_fold ob seat
            then [\<lparr>move_seat = seat, move_kind = Fold, move_amount = None, move_street = st\<rparr>]
            else [])"

text \<open>
  Modelled from the spec: the candidates of all seats of the missing tracker, in seat
  order.
\<close>

definition infer_bets :: "GameState \<Rightarrow> street \<Rightarrow> Observation \<Rightarrow> Move list" where
  "infer_bets s st ob = concat (map (infer_seat s st ob) seats)"

subsection \<open>Scenarios\<close>

text \<open>
  The inputs of the scenarios of section 8 of the specification: an observation from
  its cards, positions and the bid readings of the seats that show one; no seat shows a
  fold marker.
\<close>

definition no_folds :: "seat \<Rightarrow> bool" where
  "no_folds seat = False"

definition bids_of :: "(seat \<times> reading) list \<Rightarrow> seat \<Rightarrow> reading" where
  "bids_of bs seat = (case map_of bs seat of None \<Rightarrow> NoAmount | Some r \<Rightarrow> r)"

definition table_obs ::
  "table_card list \<Rightarrow> table_card list \<Rightarrow> (seat \<times> string) list \<Rightarrow> (seat \<times> reading) list \<Rightarrow>
   Observation" where
  "table_obs hole community poss bs =
     \<lparr>obs_hole = hole, obs_community = community, obs_positions = poss,
      obs_bids = bids_of bs, obs_fold = no_folds\<rparr>"


text \<open>The state after two cycles that read $75 for seat 3.\<close>

definition stable_75 :: GameState where
  "stable_75 =
     run infer_bets initial_state
       [table_obs [''As''] [] [(1, ''BTN'')] [(3, Amount 75)],
        table_obs [''As''] [] [(1, ''BTN'')] [(3, Amount 75)]]"

section \<open>Properties of the client helpers\<close>

lemma replace_whitespace_runs_filter:
  "replace_whitespace_runs s = filter (\<lambda>c. \<not> is_whitespace c) s"
proof (induction s rule: replace_whitespace_runs.induct)
  case 1
  show ?case by simp
next
  case (2 c cs)
  show ?case
  proof (cases "is_whitespace c")
    case True
    have "filter (\<lambda>c. \<not> is_whitespace c) (dropWhile is_whitespace cs) =
          filter (\<lambda>c. \<not> is_whitespace c) cs"
      by (induction cs) auto
    with True 2 show ?thesis by simp
  next
    case False
    with 2 show ?thesis by simp
  qed
qed

text \<open>
  C8.  The colour of a card depends on the last code unit of its display string only:
  red for U+2665 (hearts), blue for U+2666 (diamonds), green for U+2663 (clubs), black
  for every other last code unit (spades, U+2660, among them) and for the empty string.
\<close>

theorem getSuitColor_last:
  "getSuitColor c =
     (if c = [] then js ''black''
      else if last c = 0x2665 then js ''red''
      else if last c = 0x2666 then js ''blue''
      else if last c = 0x2663 then js ''green''
      else js ''black'')"
  by (simp add: getSuitColor_def slice_last_def)

theorem getSuitColor_last_witness:
  "getSuitColor (js ''A'' @ [0x2665]) = js ''red'' \<and>
   getSuitColor (js ''10'' @ [0x2666]) = js ''blue'' \<and>
   getSuitColor (js ''K'' @ [0x2663]) = js ''green'' \<and>
   getSuitColor (js ''Q'' @ [0x2660]) = js ''black'' \<and>
   getSuitColor (js ''Ah'') = js ''black'' \<and>
   getSuitColor [] = js ''black''"
  using getSuitColor_last [of "js ''A'' @ [0x2665]"]
    getSuitColor_last [of "js ''10'' @ [0x2666]"]
    getSuitColor_last [of "js ''K'' @ [0x2663]"]
    getSuitColor_last [of "js ''Q'' @ [0x2660]"]
    getSuitColor_last [of "js ''Ah''"]
    getSuitColor_last [of "[]"]
  by (simp add: js_def)

text \<open>
  C10.  copyToClipboard never throws.  For a string it hands to the clipboard the text
  with every white-space code unit removed and the other code units in their order;
  for \<open>undefined\<close>, \<open>null\<close> and the empty string it hands over the empty string.
  When the browser grants the write, that text is the new clipboard content.
\<close>

theorem copyToClipboard_strips_whitespace:
  "normalized text =
     Inr (case text of Val s \<Rightarrow> filter (\<lambda>c. \<not> is_whitespace c) s | _ \<Rightarrow> []) \<and>
   (\<forall>n. normalized text = Inr n \<longrightarrow> (\<forall>c \<in> set n. \<not> is_whitespace c)) \<and>
   normalized Undefined = Inr [] \<and> normalized Null = Inr [] \<and> normalized (Val []) = Inr [] \<and>
   (\<exists>p'. copyToClipboard granted text p = Inr p' \<and>
         (granted \<longrightarrow> normalized text = Inr (clipboard p')) \<and>
         (\<not> granted \<longrightarrow> clipboard p' = clipboard p))"
proof -
  have n: "normalized text =
      Inr (case text of Val s \<Rightarrow> filter (\<lambda>c. \<not> is_whitespace c) s | _ \<Rightarrow> [])"
    by (cases "text") (simp_all add: normalized_def replace_whitespace_runs_filter)
  have ws: "\<forall>n. normalized text = Inr n \<longrightarrow> (\<forall>c \<in> set n. \<not> is_whitespace c)"
    unfolding n by (cases "text") auto
  have e: "normalized Undefined = Inr [] \<and> normalized Null = Inr [] \<and> normalized (Val []) = Inr []"
    by (simp add: normalized_def)
  have c: "\<exists>p'. copyToClipboard granted text p = Inr p' \<and>
         (granted \<longrightarrow> normalized text = Inr (clipboard p')) \<and>
         (\<not> granted \<longrightarrow> clipboard p' = clipboard p)"
    unfolding n by (simp add: copyToClipboard_def n showToast_def)
  from n ws e c show ?thesis by blast
qed

theorem copyToClipboard_strips_whitespace_witness:
  "normalized (Val (js ''Ac Kd  7s'' @ [0x0A, 0x00A0] @ js ''2h '')) = Inr (js ''AcKd7s2h'') \<and>
   copyToClipboard True (Val (js ''Ac Kd  7s'' @ [0x0A, 0x00A0] @ js ''2h ''))
       \<lparr>clipboard = js ''old'', toast_textContent = [], toast_show = False\<rparr> =
     Inr \<lparr>clipboard = js ''AcKd7s2h'', toast_textContent = js ''Copied to clipboard!'',
          toast_show = True\<rparr> \<and>
   copyToClipboard True Null
       \<lparr>clipboard = js ''old'', toast_textContent = [], toast_show = False\<rparr> =
     Inr \<lparr>clipboard = [], toast_textContent = js ''Copied to clipboard!'', toast_show = True\<rparr>"
  using copyToClipboard_strips_whitespace
    [of "Val (js ''Ac Kd  7s'' @ [0x0A, 0x00A0] @ js ''2h '')" True
        "\<lparr>clipboard = js ''old'', toast_textContent = [], toast_show = False\<rparr>"]
  by (simp add: js_def is_whitespace_def copyToClipboard_def normalized_def showToast_def)

section \<open>Properties of the section builders\<close>

lemma moveText_cases:
  "moveText numStr m =
     ToString numStr (player_label m) @ js '': '' @ ToString numStr (action m) @
     (case amount m of Val a \<Rightarrow> if a > 0 then js '' $'' @ numStr a else [] | _ \<Rightarrow> [])"
  by (cases "amount m") (simp_all add: moveText_def)

lemma moveHtml_zero_amount:
  "moveHtml numStr (if amount m = Null \<or> amount m = Undefined then m\<lparr>amount := Val 0\<rparr> else m) =
   moveHtml numStr m"
  by (cases "amount m") (simp_all add: moveHtml_def moveText_cases)

lemma streetMovesHtml_zero_amount:
  "streetMovesHtml numStr cls
     (sd\<lparr>streetData_moves :=
          map (\<lambda>m. if amount m = Null \<or> amount m = Undefined then m\<lparr>amount := Val 0\<rparr> else m)
            (streetData_moves sd)\<rparr>) =
   streetMovesHtml numStr cls sd"
proof -
  have "map (moveHtml numStr)
          (map (\<lambda>m. if amount m = Null \<or> amount m = Undefined then m\<lparr>amount := Val 0\<rparr> else m)
             (streetData_moves sd)) =
        map (moveHtml numStr) (streetData_moves sd)"
    by (simp only: map_map o_def moveHtml_zero_amount)
  then show ?thesis by (simp add: streetMovesHtml_def del: map_map)
qed

lemma createMovesSection_zero_amount:
  "createMovesSection numStr cfg
     (d\<lparr>moves := Val (map (\<lambda>sd. sd\<lparr>streetData_moves :=
          map (\<lambda>m. if amount m = Null \<or> amount m = Undefined then m\<lparr>amount := Val 0\<rparr> else m)
            (streetData_moves sd)\<rparr>) sds)\<rparr>) u =
   createMovesSection numStr cfg (d\<lparr>moves := Val sds\<rparr>) u"
proof -
  have "map (streetMovesHtml numStr cls)
          (map (\<lambda>sd. sd\<lparr>streetData_moves :=
             map (\<lambda>m. if amount m = Null \<or> amount m = Undefined then m\<lparr>amount := Val 0\<rparr> else m)
               (streetData_moves sd)\<rparr>) sds) =
        map (streetMovesHtml numStr cls) sds" for cls
    by (simp only: map_map o_def streetMovesHtml_zero_amount)
  then show ?thesis by (simp add: createMovesSection_def del: map_map)
qed

lemma createMovesSection_rendered:
  \<open>show_moves cfg \<Longrightarrow> moves d = Val sds \<Longrightarrow> sds \<noteq> [] \<Longrightarrow>
   createMovesSection numStr cfg d u =
     js ''\<newline>        <div class="cards-section">'' @
     js ''\<newline>            <div class="cards-label">Moves History:</div>'' @
     js ''\<newline>            <div class="moves-by-street">'' @
     js ''\<newline>                '' @
     concat (map (\<lambda>sd.
       js ''\<newline>            <div class="'' @
         (if u then js ''street-moves-block new-moves'' else js ''street-moves-block'') @ js ''">'' @
       js ''\<newline>                <div class="street-moves-header">'' @
         ToString numStr (streetData_street sd) @ js ''</div>'' @
       js ''\<newline>                <div class="street-moves-list">'' @
         concat (map (\<lambda>m. js ''<div class="move">'' @ moveText numStr m @ js ''</div>'')
           (streetData_moves sd)) @ js ''</div>'' @
       js ''\<newline>            </div>'' @
       js ''\<newline>        '') sds) @
     js ''\<newline>            </div>'' @
     js ''\<newline>        </div>'' @
     js ''\<newline>    ''\<close>
proof -
  have m: \<open>moveHtml numStr = (\<lambda>m. js ''<div class="move">'' @ moveText numStr m @ js ''</div>'')\<close>
    by (rule ext) (simp add: moveHtml_def)
  have st: \<open>streetMovesHtml numStr cls = (\<lambda>sd.
       js ''\<newline>            <div class="'' @ cls @ js ''">'' @
       js ''\<newline>                <div class="street-moves-header">'' @
         ToString numStr (streetData_street sd) @ js ''</div>'' @
       js ''\<newline>                <div class="street-moves-list">'' @
         concat (map (\<lambda>m. js ''<div class="move">'' @ moveText numStr m @ js ''</div>'')
           (streetData_moves sd)) @ js ''</div>'' @
       js ''\<newline>            </div>'' @
       js ''\<newline>        '')\<close> for cls
    by (rule ext) (simp add: streetMovesHtml_def m)
  assume "show_moves cfg" "moves d = Val sds" "sds \<noteq> []"
  then show ?thesis
    by (cases u) (simp_all add: createMovesSection_def st)
qed

lemma createMovesSection_no_moves:
  \<open>show_moves cfg \<Longrightarrow> moves d = Undefined \<or> moves d = Null \<or> moves d = Val [] \<Longrightarrow>
   createMovesSection numStr cfg d u =
     js ''\<newline>            <div class="cards-section">'' @
     js ''\<newline>                <div class="cards-label">Moves History:</div>'' @
     js ''\<newline>                <div class="moves-by-street">'' @
     js ''\<newline>                    <div class="no-moves">No moves detected</div>'' @
     js ''\<newline>                </div>'' @
     js ''\<newline>            </div>'' @
     js ''\<newline>        ''\<close>
  by (auto simp: createMovesSection_def noMovesHtml_def)

text \<open>
  C9.  The text of a move is \<open>player_label: action\<close>, followed by \<open> $amount\<close>
  only when the amount is a number greater than 0.  For the amount 0, \<open>null\<close> and a
  missing amount the text is \<open>player_label: action\<close> alone.  The moves section that
  is shown for a detection with moves is the template of the source around, street by
  street and move by move, \<open><div class="move">\<close> with this text of every move.  So
  the three amounts render alike: replacing every \<open>null\<close> or missing amount of a
  detection by 0 leaves the moves section unchanged.
\<close>

theorem moves_amount_only_when_positive:
  \<open>moveText numStr m =
     ToString numStr (player_label m) @ js '': '' @ ToString numStr (action m) @
     (case amount m of Val a \<Rightarrow> if a > 0 then js '' $'' @ numStr a else [] | _ \<Rightarrow> []) \<and>
   (amount m = Val 0 \<or> amount m = Null \<or> amount m = Undefined \<longrightarrow>
      moveText numStr m = ToString numStr (player_label m) @ js '': '' @ ToString numStr (action m)) \<and>
   moveHtml numStr m = js ''<div class="move">'' @ moveText numStr m @ js ''</div>'' \<and>
   (show_moves cfg \<and> moves d = Val sds \<and> sds \<noteq> [] \<longrightarrow>
    createMovesSection numStr cfg d u =
     js ''\<newline>        <div class="cards-section">'' @
     js ''\<newline>            <div class="cards-label">Moves History:</div>'' @
     js ''\<newline>            <div class="moves-by-street">'' @
     js ''\<newline>                '' @
     concat (map (\<lambda>sd.
       js ''\<newline>            <div class="'' @
         (if u then js ''street-moves-block new-moves'' else js ''street-moves-block'') @ js ''">'' @
       js ''\<newline>                <div class="street-moves-header">'' @
         ToString numStr (streetData_street sd) @ js ''</div>'' @
       js ''\<newline>                <div class="street-moves-list">'' @
         concat (map (\<lambda>m. js ''<div class="move">'' @ moveText numStr m @ js ''</div>'')
           (streetData_moves sd)) @ js ''</div>'' @
       js ''\<newline>            </div>'' @
       js ''\<newline>        '') sds) @
     js ''\<newline>            </div>'' @
     js ''\<newline>        </div>'' @
     js ''\<newline>    '') \<and>
   (show_moves cfg \<and> (moves d = Undefined \<or> moves d = Null \<or> moves d = Val []) \<longrightarrow>
    createMovesSection numStr cfg d u =
     js ''\<newline>            <div class="cards-section">'' @
     js ''\<newline>                <div class="cards-label">Moves History:</div>'' @
     js ''\<newline>                <div class="moves-by-street">'' @
     js ''\<newline>                    <div class="no-moves">No moves detected</div>'' @
     js ''\<newline>                </div>'' @
     js ''\<newline>            </div>'' @
     js ''\<newline>        '') \<and>
   createMovesSection numStr cfg
     (d\<lparr>moves := Val (map (\<lambda>sd. sd\<lparr>streetData_moves :=
          map (\<lambda>m. if amount m = Null \<or> amount m = Undefined then m\<lparr>amount := Val 0\<rparr> else m)
            (streetData_moves sd)\<rparr>) sds)\<rparr>) u =
   createMovesSection numStr cfg (d\<lparr>moves := Val sds\<rparr>) u\<close>
proof -
  have a: "amount m = Val 0 \<or> amount m = Null \<or> amount m = Undefined \<longrightarrow>
      moveText numStr m = ToString numStr (player_label m) @ js '': '' @ ToString numStr (action m)"
    by (auto simp: moveText_cases)
  show ?thesis
    using a moveText_cases [of numStr m] createMovesSection_zero_amount [of numStr cfg sds d u]
      createMovesSection_rendered [of cfg d sds numStr u]
      createMovesSection_no_moves [of cfg d numStr u]
    by (simp only: moveHtml_def simp_thms) blast
qed

theorem moves_amount_only_when_positive_witness:
  \<open>moveText (\<lambda>n. js ''100'')
     \<lparr>player_label = Val (Str (js ''BTN'')), action = Val (Str (js ''raise'')), amount = Val 100\<rparr> =
     js ''BTN: raise $100'' \<and>
   moveText (\<lambda>n. js ''0'')
     \<lparr>player_label = Val (Str (js ''SB'')), action = Val (Str (js ''check'')), amount = Val 0\<rparr> =
     js ''SB: check'' \<and>
   moveText (\<lambda>n. js ''0'')
     \<lparr>player_label = Val (Str (js ''SB'')), action = Val (Str (js ''check'')), amount = Null\<rparr> =
     js ''SB: check'' \<and>
   moveText (\<lambda>n. js ''0'')
     \<lparr>player_label = Val (Str (js ''SB'')), action = Val (Str (js ''check'')), amount = Undefined\<rparr> =
     js ''SB: check'' \<and>
   createMovesSection (\<lambda>n. js ''100'')
     \<lparr>backend_capture_interval = 3, show_table_cards = True, show_positions = True,
       show_moves = True, show_solver_link = True\<rparr>
     \<lparr>window_name = Val (Str (js ''Table 1'')), last_update = Val (Str (js ''2024'')),
       player_cards = Null, player_cards_string = Val (Str []),
       table_cards = Null, table_cards_string = Val (Str []), street = Val (js ''Preflop''),
       positions = Null,
       moves = Val [\<lparr>streetData_street = Val (Str (js ''Preflop'')),
                     streetData_moves =
                       [\<lparr>player_label = Val (Str (js ''BTN'')), action = Val (Str (js ''raise'')),
                          amount = Val 100\<rparr>,
                        \<lparr>player_label = Val (Str (js ''SB'')), action = Val (Str (js ''check'')),
                          amount = Null\<rparr>]\<rparr>],
       solver_link = Null\<rparr> False =
     js ''\<newline>        <div class="cards-section">'' @
     js ''\<newline>            <div class="cards-label">Moves History:</div>'' @
     js ''\<newline>            <div class="moves-by-street">'' @
     js ''\<newline>                '' @
     js ''\<newline>            <div class="street-moves-block">'' @
     js ''\<newline>                <div class="street-moves-header">Preflop</div>'' @
     js ''\<newline>                <div class="street-moves-list">'' @
     js ''<div class="move">BTN: raise $100</div><div class="move">SB: check</div></div>'' @
     js ''\<newline>            </div>'' @
     js ''\<newline>        '' @
     js ''\<newline>            </div>'' @
     js ''\<newline>        </div>'' @
     js ''\<newline>    ''\<close>
  using moves_amount_only_when_positive
      [of "\<lambda>n. js ''100''"
          "\<lparr>player_label = Val (Str (js ''BTN'')), action = Val (Str (js ''raise'')), amount = Val 100\<rparr>"
          "\<lparr>backend_capture_interval = 3, show_table_cards = True, show_positions = True,
            show_moves = True, show_solver_link = True\<rparr>"
          "\<lparr>window_name = Val (Str (js ''Table 1'')), last_update = Val (Str (js ''2024'')),
            player_cards = Null, player_cards_string = Val (Str []),
            table_cards = Null, table_cards_string = Val (Str []), street = Val (js ''Preflop''),
            positions = Null,
            moves = Val [\<lparr>streetData_street = Val (Str (js ''Preflop'')),
                     streetData_moves =
                       [\<lparr>player_label = Val (Str (js ''BTN'')), action = Val (Str (js ''raise'')),
                          amount = Val 100\<rparr>,
                        \<lparr>player_label = Val (Str (js ''SB'')), action = Val (Str (js ''check'')),
                          amount = Null\<rparr>]\<rparr>],
            solver_link = Null\<rparr>"
          "[\<lparr>streetData_street = Val (Str (js ''Preflop'')),
                     streetData_moves =
                       [\<lparr>player_label = Val (Str (js ''BTN'')), action = Val (Str (js ''raise'')),
                          amount = Val 100\<rparr>,
                        \<lparr>player_label = Val (Str (js ''SB'')), action = Val (Str (js ''check'')),
                          amount = Null\<rparr>]\<rparr>]"
          False]
    moves_amount_only_when_positive
      [of "\<lambda>n. js ''0''"
          "\<lparr>player_label = Val (Str (js ''SB'')), action = Val (Str (js ''check'')), amount = Val 0\<rparr>"]
    moves_amount_only_when_positive
      [of "\<lambda>n. js ''0''"
          "\<lparr>player_label = Val (Str (js ''SB'')), action = Val (Str (js ''check'')), amount = Null\<rparr>"]
    moves_amount_only_when_positive
      [of "\<lambda>n. js ''0''"
          "\<lparr>player_label = Val (Str (js ''SB'')), action = Val (Str (js ''check'')), amount = Undefined\<rparr>"]
  by (simp add: js_def moveText_def)

lemma createTableCardsSection_off:
  "\<not> show_table_cards cfg \<Longrightarrow> createTableCardsSection numStr cfg d u = []"
  by (simp add: createTableCardsSection_def)

lemma createPositionsSection_off:
  "\<not> show_positions cfg \<Longrightarrow> createPositionsSection numStr cfg d u = []"
  by (simp add: createPositionsSection_def)

lemma createMovesSection_off:
  "\<not> show_moves cfg \<Longrightarrow> createMovesSection numStr cfg d u = []"
  by (simp add: createMovesSection_def)

lemma createSolverLinkSection_off:
  "\<not> show_solver_link cfg \<Longrightarrow> createSolverLinkSection cfg d u = []"
  by (simp add: createSolverLinkSection_def)

lemma createTableCardsSection_frame:
  "createTableCardsSection numStr (cfg\<lparr>show_positions := b\<rparr>) d u = createTableCardsSection numStr cfg d u"
  "createTableCardsSection numStr (cfg\<lparr>show_moves := b\<rparr>) d u = createTableCardsSection numStr cfg d u"
  "createTableCardsSection numStr (cfg\<lparr>show_solver_link := b\<rparr>) d u = createTableCardsSection numStr cfg d u"
  by (simp_all add: createTableCardsSection_def)

lemma createPositionsSection_frame:
  "createPositionsSection numStr (cfg\<lparr>show_table_cards := b\<rparr>) d u = createPositionsSection numStr cfg d u"
  "createPositionsSection numStr (cfg\<lparr>show_moves := b\<rparr>) d u = createPositionsSection numStr cfg d u"
  "createPositionsSection numStr (cfg\<lparr>show_solver_link := b\<rparr>) d u = createPositionsSection numStr cfg d u"
  by (simp_all add: createPositionsSection_def)

lemma createMovesSection_frame:
  "createMovesSection numStr (cfg\<lparr>show_table_cards := b\<rparr>) d u = createMovesSection numStr cfg d u"
  "createMovesSection numStr (cfg\<lparr>show_positions := b\<rparr>) d u = createMovesSection numStr cfg d u"
  "createMovesSection numStr (cfg\<lparr>show_solver_link := b\<rparr>) d u = createMovesSection numStr cfg d u"
  by (simp_all add: createMovesSection_def)

lemma createSolverLinkSection_frame:
  "createSolverLinkSection (cfg\<lparr>show_table_cards := b\<rparr>) d u = createSolverLinkSection cfg d u"
  "createSolverLinkSection (cfg\<lparr>show_positions := b\<rparr>) d u = createSolverLinkSection cfg d u"
  "createSolverLinkSection (cfg\<lparr>show_moves := b\<rparr>) d u = createSolverLinkSection cfg d u"
  by (simp_all add: createSolverLinkSection_def)

lemma createTableContainer_sections:
  "createTableContainer numStr timeStr cfg d u =
     tableContainerHtml
       (if u then js ''table-container updated client-table'' else js ''table-container client-table'')
       (ToString numStr (window_name d)) (timeStr (last_update d))
       (playerCardsColumn (createPlayerCardsSection numStr d u) @
        (if show_table_cards cfg then createTableCardsSection numStr cfg d u else []) @
        (if show_positions cfg then createPositionsSection numStr cfg d u else []))
       (if show_moves cfg then createMovesSection numStr cfg d u else [])
       (if show_solver_link cfg then createSolverLinkSection cfg d u else [])"
  by (simp add: createTableContainer_def Let_def createTableCardsSection_off
      createPositionsSection_off createMovesSection_off createSolverLinkSection_off)

text \<open>
  C7.  A section builder whose toggle is false returns the empty string; changing one
  toggle leaves what the three other builders return unchanged (the player cards
  builder reads no toggle); and the table container is its template with the empty
  string in the place of every section that is switched off.
\<close>

theorem toggle_suppresses_own_section:
  "(\<not> show_table_cards cfg \<longrightarrow> createTableCardsSection numStr cfg d u = []) \<and>
   (\<not> show_positions cfg \<longrightarrow> createPositionsSection numStr cfg d u = []) \<and>
   (\<not> show_moves cfg \<longrightarrow> createMovesSection numStr cfg d u = []) \<and>
   (\<not> show_solver_link cfg \<longrightarrow> createSolverLinkSection cfg d u = []) \<and>
   createTableCardsSection numStr (cfg\<lparr>show_positions := b\<rparr>) d u = createTableCardsSection numStr cfg d u \<and>
   createTableCardsSection numStr (cfg\<lparr>show_moves := b\<rparr>) d u = createTableCardsSection numStr cfg d u \<and>
   createTableCardsSection numStr (cfg\<lparr>show_solver_link := b\<rparr>) d u = createTableCardsSection numStr cfg d u \<and>
   createPositionsSection numStr (cfg\<lparr>show_table_cards := b\<rparr>) d u = createPositionsSection numStr cfg d u \<and>
   createPositionsSection numStr (cfg\<lparr>show_moves := b\<rparr>) d u = createPositionsSection numStr cfg d u \<and>
   createPositionsSection numStr (cfg\<lparr>show_solver_link := b\<rparr>) d u = createPositionsSection numStr cfg d u \<and>
   createMovesSection numStr (cfg\<lparr>show_table_cards := b\<rparr>) d u = createMovesSection numStr cfg d u \<and>
   createMovesSection numStr (cfg\<lparr>show_positions := b\<rparr>) d u = createMovesSection numStr cfg d u \<and>
   createMovesSection numStr (cfg\<lparr>show_solver_link := b\<rparr>) d u = createMovesSection numStr cfg d u \<and>
   createSolverLinkSection (cfg\<lparr>show_table_cards := b\<rparr>) d u = createSolverLinkSection cfg d u \<and>
   createSolverLinkSection (cfg\<lparr>show_positions := b\<rparr>) d u = createSolverLinkSection cfg d u \<and>
   createSolverLinkSection (cfg\<lparr>show_moves := b\<rparr>) d u = createSolverLinkSection cfg d u \<and>
   createTableContainer numStr timeStr cfg d u =
     tableContainerHtml
       (if u then js ''table-container updated client-table'' else js ''table-container client-table'')
       (ToString numStr (window_name d)) (timeStr (last_update d))
       (playerCardsColumn (createPlayerCardsSection numStr d u) @
        (if show_table_cards cfg then createTableCardsSection numStr cfg d u else []) @
        (if show_positions cfg then createPositionsSection numStr cfg d u else []))
       (if show_moves cfg then createMovesSection numStr cfg d u else [])
       (if show_solver_link cfg then createSolverLinkSection cfg d u else [])"
  using createTableCardsSection_off [of cfg numStr d u] createPositionsSection_off [of cfg numStr d u]
    createMovesSection_off [of cfg numStr d u] createSolverLinkSection_off [of cfg d u]
    createTableContainer_sections [of numStr timeStr cfg d u]
  by (simp only: createTableCardsSection_frame createPositionsSection_frame
      createMovesSection_frame createSolverLinkSection_frame simp_thms) blast

theorem toggle_suppresses_own_section_witness:
  "\<not> show_moves \<lparr>backend_capture_interval = 3, show_table_cards = True, show_positions = True,
        show_moves = False, show_solver_link = True\<rparr> \<and>
   createMovesSection (\<lambda>n. js ''50'')
      \<lparr>backend_capture_interval = 3, show_table_cards = True, show_positions = True,
        show_moves = False, show_solver_link = True\<rparr>
      \<lparr>window_name = Val (Str (js ''Table 1'')), last_update = Val (Str (js ''2024'')),
        player_cards = Val [\<lparr>display = js ''A'' @ [0x2665]\<rparr>],
        player_cards_string = Val (Str (js ''Ah'')),
        table_cards = Val [], table_cards_string = Val (Str []), street = Val (js ''Preflop''),
        positions = Val [\<lparr>player = Val (Num 1), name = Val (Str (js ''BTN''))\<rparr>],
        moves = Val [\<lparr>streetData_street = Val (Str (js ''Preflop'')),
                      streetData_moves = [\<lparr>player_label = Val (Str (js ''BTN'')),
                        action = Val (Str (js ''raise'')), amount = Val 50\<rparr>]\<rparr>],
        solver_link = Null\<rparr> True = [] \<and>
   createPositionsSection (\<lambda>n. js ''1'')
      \<lparr>backend_capture_interval = 3, show_table_cards = True, show_positions = True,
        show_moves = False, show_solver_link = True\<rparr>
      \<lparr>window_name = Val (Str (js ''Table 1'')), last_update = Val (Str (js ''2024'')),
        player_cards = Val [\<lparr>display = js ''A'' @ [0x2665]\<rparr>],
        player_cards_string = Val (Str (js ''Ah'')),
        table_cards = Val [], table_cards_string = Val (Str []), street = Val (js ''Preflop''),
        positions = Val [\<lparr>player = Val (Num 1), name = Val (Str (js ''BTN''))\<rparr>],
        moves = Val [\<lparr>streetData_street = Val (Str (js ''Preflop'')),
                      streetData_moves = [\<lparr>player_label = Val (Str (js ''BTN'')),
                        action = Val (Str (js ''raise'')), amount = Val 50\<rparr>]\<rparr>],
        solver_link = Null\<rparr> True \<noteq> []"
  using toggle_suppresses_own_section
    [of "\<lparr>backend_capture_interval = 3, show_table_cards = True, show_positions = True,
        show_moves = False, show_solver_link = True\<rparr>"
      "\<lambda>n. js ''50''"
      "\<lparr>window_name = Val (Str (js ''Table 1'')), last_update = Val (Str (js ''2024'')),
        player_cards = Val [\<lparr>display = js ''A'' @ [0x2665]\<rparr>],
        player_cards_string = Val (Str (js ''Ah'')),
        table_cards = Val [], table_cards_string = Val (Str []), street = Val (js ''Preflop''),
        positions = Val [\<lparr>player = Val (Num 1), name = Val (Str (js ''BTN''))\<rparr>],
        moves = Val [\<lparr>streetData_street = Val (Str (js ''Preflop'')),
                      streetData_moves = [\<lparr>player_label = Val (Str (js ''BTN'')),
                        action = Val (Str (js ''raise'')), amount = Val 50\<rparr>]\<rparr>],
        solver_link = Null\<rparr>" True]
  by (simp add: createPositionsSection_def js_def)

section \<open>Properties of change detection\<close>

text \<open>
  C6.  \<open>detectChanges\<close> answers false exactly when the JSON text of the new
  detections equals the JSON text of the stored ones, and true for every other text.
  Of the client's variables only the stored detections enter: two clients that agree on
  them give the same answer, whatever their configuration, entity tag and polling flag.
\<close>

theorem detectChanges_serialization_only:
  "(detectChanges stringify cl newDetections = False \<longleftrightarrow>
      stringify newDetections = stringify (previousDetections cl)) \<and>
   (detectChanges stringify cl newDetections = True \<longleftrightarrow>
      stringify newDetections \<noteq> stringify (previousDetections cl)) \<and>
   (previousDetections cl' = previousDetections cl \<longrightarrow>
      detectChanges stringify cl' newDetections = detectChanges stringify cl newDetections) \<and>
   detectChanges stringify
     (cl\<lparr>client_config := cfg, lastETag := etag, pollingActive := active\<rparr>) newDetections =
   detectChanges stringify cl newDetections"
  by (simp add: detectChanges_def)

theorem detectChanges_serialization_only_witness:
  "detectChanges (\<lambda>t. t)
     \<lparr>client_config = \<lparr>backend_capture_interval = 3, show_table_cards = True,
        show_positions = True, show_moves = True, show_solver_link = True\<rparr>,
      previousDetections = Val (js ''[]''), lastETag = Null, pollingActive = True\<rparr>
     (Val (js ''[]'')) = False \<and>
   detectChanges (\<lambda>t. t)
     \<lparr>client_config = \<lparr>backend_capture_interval = 3, show_table_cards = True,
        show_positions = True, show_moves = True, show_solver_link = True\<rparr>,
      previousDetections = Val (js ''[]''), lastETag = Null, pollingActive = True\<rparr>
     (Val (js ''[1]'')) = True \<and>
   detectChanges (\<lambda>t. t)
     \<lparr>client_config = \<lparr>backend_capture_interval = 5, show_table_cards = False,
        show_positions = True, show_moves = True, show_solver_link = True\<rparr>,
      previousDetections = Val (js ''[]''), lastETag = Val (js ''abc''), pollingActive = False\<rparr>
     (Val (js ''[1]'')) =
   detectChanges (\<lambda>t. t)
     \<lparr>client_config = \<lparr>backend_capture_interval = 3, show_table_cards = True,
        show_positions = True, show_moves = True, show_solver_link = True\<rparr>,
      previousDetections = Val (js ''[]''), lastETag = Null, pollingActive = True\<rparr>
     (Val (js ''[1]''))"
  using detectChanges_serialization_only
    [of "\<lambda>t. t"
      "\<lparr>client_config = \<lparr>backend_capture_interval = 3, show_table_cards = True,
        show_positions = True, show_moves = True, show_solver_link = True\<rparr>,
      previousDetections = Val (js ''[]''), lastETag = Null, pollingActive = True\<rparr>"
      "Val (js ''[1]'')"
      "\<lparr>client_config = \<lparr>backend_capture_interval = 5, show_table_cards = False,
        show_positions = True, show_moves = True, show_solver_link = True\<rparr>,
      previousDetections = Val (js ''[]''), lastETag = Val (js ''abc''), pollingActive = False\<rparr>"]
    detectChanges_serialization_only
    [of "\<lambda>t. t"
      "\<lparr>client_config = \<lparr>backend_capture_interval = 3, show_table_cards = True,
        show_positions = True, show_moves = True, show_solver_link = True\<rparr>,
      previousDetections = Val (js ''[]''), lastETag = Null, pollingActive = True\<rparr>"
      "Val (js ''[]'')"]
  by (simp add: js_def)

section \<open>Properties of the engine as specified\<close>

subsection \<open>Street\<close>

text \<open>
  C1.  The street is a function of the community-card count alone: Preflop for 0, Flop
  for 3, Turn for 4, River for 5, and every other count is rejected with an error
  instead of a street.  The street of a game state, and the one its snapshot shows, is
  this function of the number of its community cards: two states with the same number
  of cards are on the same street.
\<close>

theorem Street_by_count:
  "Street 0 = Inr Preflop \<and> Street 3 = Inr Flop \<and> Street 4 = Inr Turn \<and> Street 5 = Inr River \<and>
   (c \<noteq> 0 \<and> c \<noteq> 3 \<and> c \<noteq> 4 \<and> c \<noteq> 5 \<longrightarrow> Street c = Inl (InvalidCardCount c)) \<and>
   (Street c = Inr st \<longleftrightarrow>
      c = 0 \<and> st = Preflop \<or> c = 3 \<and> st = Flop \<or> c = 4 \<and> st = Turn \<or> c = 5 \<and> st = River) \<and>
   (length (community_cards s) = length (community_cards s') \<longrightarrow>
      current_street s = current_street s') \<and>
   snap_street (snapshot s) = Street (length (community_cards s))"
  by (auto simp: Street_def current_street_def snapshot_def)

theorem Street_by_count_witness:
  "(2::nat) \<noteq> 0 \<and> (2::nat) \<noteq> 3 \<and> (2::nat) \<noteq> 4 \<and> (2::nat) \<noteq> 5 \<and>
   Street 2 = Inl (InvalidCardCount 2) \<and> Street 3 = Inr Flop \<and>
   length (community_cards (run infer_bets initial_state [table_obs [''As''] [''2c'', ''3d'', ''4h''] [] []])) =
   length (community_cards (run infer_bets initial_state [table_obs [''Kd''] [''9c'', ''Td'', ''Jh''] [] [(1, Amount 5)]])) \<and>
   current_street (run infer_bets initial_state [table_obs [''As''] [''2c'', ''3d'', ''4h''] [] []]) = Inr Flop \<and>
   current_street (run infer_bets initial_state [table_obs [''Kd''] [''9c'', ''Td'', ''Jh''] [] [(1, Amount 5)]]) = Inr Flop"
proof -
  have l: "length (community_cards (run infer_bets initial_state [table_obs [''As''] [''2c'', ''3d'', ''4h''] [] []])) =
   length (community_cards (run infer_bets initial_state [table_obs [''Kd''] [''9c'', ''Td'', ''Jh''] [] [(1, Amount 5)]]))"
    by code_simp
  have f: "current_street (run infer_bets initial_state [table_obs [''As''] [''2c'', ''3d'', ''4h''] [] []]) = Inr Flop"
    by code_simp
  from Street_by_count [of 2 Flop
      "run infer_bets initial_state [table_obs [''As''] [''2c'', ''3d'', ''4h''] [] []]"
      "run infer_bets initial_state [table_obs [''Kd''] [''9c'', ''Td'', ''Jh''] [] [(1, Amount 5)]]"] l f
  show ?thesis by simp
qed

subsection \<open>Runs of the tracker\<close>

lemma run_snoc: "run infer s (obs @ [ob]) = track infer (run infer s obs) ob"
  by (simp add: run_def)

lemma run_Nil: "run infer s [] = s"
  by (simp add: run_def)

text \<open>
  Hole cards that change across a cycle that detected none start a new hand; the first
  detection of a table does not.
\<close>

lemma hole_change_across_undetected_cycle:
  "hand_epoch (run infer_bets initial_state
     [table_obs [''As'', ''Ks'', ''Qs'', ''Js''] [] [] []]) = 0 \<and>
   hand_epoch (run infer_bets initial_state
     [table_obs [''As'', ''Ks'', ''Qs'', ''Js''] [] [] [], table_obs [] [] [] []]) = 0 \<and>
   hand_epoch (run infer_bets initial_state
     [table_obs [''As'', ''Ks'', ''Qs'', ''Js''] [] [] [], table_obs [] [] [] [],
      table_obs [''Kd'', ''Kh'', ''Kc'', ''Ks''] [] [] []]) = 1"
  by code_simp

subsection \<open>Confirmation of moves\<close>














subsection \<open>Unknown readings\<close>

lemma parse_amount_chars:
  assumes "parse_amount txt = Some a"
  shows "\<forall>c \<in> set txt. is_digit c \<or> c = CHR ''.''"
proof (cases "dropWhile is_digit txt")
  case Nil
  then have "\<forall>c \<in> set txt. is_digit c" by (simp add: dropWhile_eq_Nil_conv)
  then show ?thesis by blast
next
  case (Cons d fp)
  with assms have p: "d = CHR ''.''" "list_all is_digit fp"
    by (auto simp: parse_amount_def Let_def split: if_splits)
  have tx: "txt = takeWhile is_digit txt @ d # fp"
    using Cons by (metis takeWhile_dropWhile_id)
  have dg: "\<forall>c \<in> set (takeWhile is_digit txt). is_digit c" by (auto dest: set_takeWhileD)
  show ?thesis
  proof
    fix c assume "c \<in> set txt"
    then have "c \<in> set (takeWhile is_digit txt) \<or> c = d \<or> c \<in> set fp"
      by (subst (asm) tx) auto
    with dg p show "is_digit c \<or> c = CHR ''.''" by (auto simp: list_all_iff)
  qed
qed

lemma read_amount_failed:
  "\<exists>c \<in> set txt. \<not> (is_digit c \<or> c = CHR ''.'') \<Longrightarrow> read_amount txt = Unknown"
  using parse_amount_chars [of "txt"]
  by (cases "parse_amount txt") (auto simp: read_amount_def)

lemma track_pending_reading:
  "pending_reading (track infer s ob) seat = Some r \<Longrightarrow> obs_bids ob seat = r"
  by (auto simp: track_def reset_hand_def continue_hand_def Let_def confirm_pending_def
      split: if_splits sum.splits)

lemma pending_reading_last:
  "pending_reading (run infer initial_state obs) seat = Some r \<Longrightarrow>
     obs \<noteq> [] \<and> obs_bids (last obs) seat = r"
proof (induction obs rule: rev_induct)
  case Nil
  then show ?case by (simp add: run_Nil initial_state_def)
next
  case (snoc ob obs)
  then show ?case by (simp add: run_snoc track_pending_reading)
qed

lemma track_committed_cases:
  "committed_amount (track infer s ob) st seat = committed_amount s st seat \<or>
   committed_amount (track infer s ob) st seat = NoAmount \<and> new_hand s ob \<or>
   committed_amount (track infer s ob) st seat = obs_bids ob seat \<and>
     pending_reading s seat = Some (obs_bids ob seat) \<and> \<not> new_hand s ob \<and>
     Street (length (obs_community ob)) = Inr st"
  by (auto simp: track_def reset_hand_def continue_hand_def Let_def confirm_amount_def
      split: if_splits sum.splits)

lemma track_unknown_once:
  "obs_bids ob seat = Unknown \<Longrightarrow> pending_reading s seat \<noteq> Some Unknown \<Longrightarrow> \<not> new_hand s ob \<Longrightarrow>
   committed_amount (track infer s ob) st seat = committed_amount s st seat"
  using track_committed_cases [of infer s ob st seat] by auto

lemma committed_unknown_corroborated:
  assumes "committed_amount (run infer initial_state (obs @ [ob])) st seat = Unknown"
  shows "committed_amount (run infer initial_state obs) st seat = Unknown \<or>
         (obs \<noteq> [] \<and> obs_bids (last obs) seat = Unknown \<and> obs_bids ob seat = Unknown)"
proof -
  let ?s = "run infer initial_state obs"
  from assms have u: "committed_amount (track infer ?s ob) st seat = Unknown" by (simp add: run_snoc)
  from track_committed_cases [of infer ?s ob st seat] u
  consider "committed_amount ?s st seat = Unknown"
    | "obs_bids ob seat = Unknown" "pending_reading ?s seat = Some Unknown"
    by auto
  then show ?thesis
  proof cases
    case 1 then show ?thesis by simp
  next
    case 2
    with pending_reading_last [of infer obs seat Unknown] show ?thesis by simp
  qed
qed

text \<open>
  C4.  A text with a character that is neither a digit nor the decimal point is read as
  the value \<open>Unknown\<close>, which differs from the amount zero.  A committed amount
  becomes \<open>Unknown\<close> only when it was so before or when this cycle and the cycle
  before both read \<open>Unknown\<close>; a single unknown reading within a hand leaves the
  committed amount as it was: $75 stays $75.
\<close>

theorem unknown_needs_corroboration:
  "((\<exists>c \<in> set recognized. \<not> (is_digit c \<or> c = CHR ''.'')) \<longrightarrow>
      read_amount recognized = Unknown) \<and>
   Unknown \<noteq> Amount 0 \<and> read_amount ''0'' = Amount 0 \<and>
   (committed_amount (run infer initial_state (obs @ [ob])) st seat = Unknown \<longrightarrow>
      committed_amount (run infer initial_state obs) st seat = Unknown \<or>
      (obs \<noteq> [] \<and> obs_bids (last obs) seat = Unknown \<and> obs_bids ob seat = Unknown)) \<and>
   (obs_bids ob seat = Unknown \<and> pending_reading s seat \<noteq> Some Unknown \<and> \<not> new_hand s ob \<longrightarrow>
      committed_amount (track infer s ob) st seat = committed_amount s st seat)"
proof -
  have z: "read_amount ''0'' = Amount 0" by code_simp
  show ?thesis
    using read_amount_failed [of recognized] committed_unknown_corroborated [of infer obs ob st seat]
      track_unknown_once [of ob seat s infer st] z
    by blast
qed

theorem unknown_needs_corroboration_witness:
  "read_amount ''7S'' = Unknown \<and>
   committed_amount stable_75 Preflop 3 = Amount 75 \<and>
   committed_amount
     (track infer_bets stable_75 (table_obs [''As''] [] [(1, ''BTN'')] [(3, Unknown)])) Preflop 3 =
     Amount 75 \<and>
   committed_amount
     (track infer_bets
        (track infer_bets stable_75 (table_obs [''As''] [] [(1, ''BTN'')] [(3, Unknown)]))
        (table_obs [''As''] [] [(1, ''BTN'')] [(3, Unknown)])) Preflop 3 = Unknown"
proof -
  have c: "\<exists>c \<in> set ''7S''. \<not> (is_digit c \<or> c = CHR ''.'')" by code_simp
  have k: "committed_amount stable_75 Preflop 3 = Amount 75" by code_simp
  have u: "obs_bids (table_obs [''As''] [] [(1, ''BTN'')] [(3, Unknown)]) 3 = Unknown" by code_simp
  have p: "pending_reading stable_75 3 \<noteq> Some Unknown" by code_simp
  have n: "\<not> new_hand stable_75 (table_obs [''As''] [] [(1, ''BTN'')] [(3, Unknown)])" by code_simp
  have t: "committed_amount
     (track infer_bets
        (track infer_bets stable_75 (table_obs [''As''] [] [(1, ''BTN'')] [(3, Unknown)]))
        (table_obs [''As''] [] [(1, ''BTN'')] [(3, Unknown)])) Preflop 3 = Unknown"
    by code_simp
  from unknown_needs_corroboration [where recognized = "''7S''" and s = stable_75 and seat = 3
      and ob = "table_obs [''As''] [] [(1, ''BTN'')] [(3, Unknown)]" and infer = infer_bets
      and st = Preflop] c k u p n t
  show ?thesis by simp
qed


end
